theory Spec2Isabelle
  imports Main "HOL-Library.Sublist"
begin

section \<open>The resource-metadata registry of internal/dao/registry.go\<close>

text \<open>
  A shallow embedding of the registry: the catalog \<open>ResourceMetas\<close> is a map from
  identifiers to descriptors, every function that mutates the catalog in the source takes
  the catalog and returns the updated one, and every error return and panic of the source
  is a value of the result.

  The identifier type \<open>client.GVR\<close> and its constructors live in the client package,
  the conversion of a weakly typed object to a typed custom-type definition lives in the
  Kubernetes runtime library, and \<open>strings.ToLower\<close> lives in the Go standard library.
  None of them is part of the sources, so all are parameters of the development (the
  record \<open>deps\<close> below).
\<close>

subsection \<open>Strings\<close>

text \<open>
  Go strings are byte sequences; \<open>strings.Contains s sub\<close> holds when \<open>sub\<close> occurs in
  \<open>s\<close> as a contiguous run of bytes.
\<close>

fun Contains :: "string \<Rightarrow> string \<Rightarrow> bool" where
  "Contains [] sub = (sub = [])"
| "Contains (c # cs) sub = (prefix sub (c # cs) \<or> Contains cs sub)"

subsection \<open>Constants\<close>

definition crdCat :: string where "crdCat = ''crd''"
definition k9sCat :: string where "k9sCat = ''k9s''"
definition helmCat :: string where "helmCat = ''helm''"
definition scaleCat :: string where "scaleCat = ''scale''"
definition crdGVR :: string where
  "crdGVR = ''apiextensions.k8s.io/v1/customresourcedefinitions''"

definition stdGroups :: "string set" where
  "stdGroups =
     {''apps/v1'', ''autoscaling/v1'', ''autoscaling/v2'', ''autoscaling/v2beta1'',
      ''autoscaling/v2beta2'', ''batch/v1'', ''batch/v1beta1'', ''extensions/v1beta1'',
      ''policy/v1beta1'', ''policy/v1'', ''v1''}"

definition isStandardGroup :: "string \<Rightarrow> bool" where
  "isStandardGroup gv = (gv \<in> stdGroups \<or> Contains gv ''.k8s.io'')"

subsection \<open>Descriptors, identifiers and the catalog\<close>

text \<open>
  \<open>metav1.APIResource\<close>, with the fields the registry reads or writes. A Go \<open>nil\<close> slice
  and an empty slice are both the empty list.
\<close>

record APIResource =
  Name :: string
  SingularName :: string
  Namespaced :: bool
  Group :: string
  Version :: string
  Kind :: string
  Verbs :: "string list"
  ShortNames :: "string list"
  Categories :: "string list"

text \<open>The zero value of the struct: what a Go literal leaves in the fields it omits.\<close>

definition APIResource0 :: APIResource where
  "APIResource0 =
     \<lparr>Name = [], SingularName = [], Namespaced = False, Group = [], Version = [],
      Kind = [], Verbs = [], ShortNames = [], Categories = []\<rparr>"

record APIResourceList =
  GroupVersion :: string
  APIResources :: "APIResource list"

text \<open>
  The typed custom-type definition (\<open>apiext.CustomResourceDefinition\<close>), with the fields
  \<open>newGVRFromCRD\<close> and \<open>loadCRDs\<close> read. A \<open>nil\<close> pointer is \<open>None\<close>.
\<close>

record CustomResourceSubresourceScale =
  SpecReplicasPath :: string
  StatusReplicasPath :: string

record CustomResourceSubresources =
  Scale :: "CustomResourceSubresourceScale option"

record CustomResourceDefinitionVersion =
  version_Name :: string
  Served :: bool
  Deprecated :: bool
  Subresources :: "CustomResourceSubresources option"

record CustomResourceDefinition =
  spec_Group :: string
  names_Kind :: string
  names_Plural :: string
  spec_Versions :: "CustomResourceDefinitionVersion list"

text \<open>
  Weakly typed values (\<open>interface{}\<close>) as the fallback extractor tells them apart:
  the \<open>nil\<close> interface, a string, a \<open>[]string\<close>, a \<open>[]interface{}\<close>, a
  \<open>map[string]interface{}\<close>, a boolean, and a value of any other dynamic type. Reading a key of a
  \<open>nil\<close> map gives the zero value, as reading a key an empty map lacks does, so both are
  the empty map.
\<close>

datatype val =
    VNil
  | VStr string
  | VStrs "string list"
  | VSlice "val list"
  | VMap "string \<Rightarrow> val option"
  | VBool bool
  | VOther

type_synonym vmap = "string \<Rightarrow> val option"

text \<open>
  A \<open>runtime.Object\<close>: a non-nil \<open>*unstructured.Unstructured\<close> carrying its
  \<open>Object\<close> map, a nil pointer of that type (\<open>NilUnstructured\<close>), or a value of any
  other dynamic type, the nil interface included (\<open>Typed\<close>). A type assertion to
  \<open>*unstructured.Unstructured\<close> succeeds on the first two; reading the \<open>Object\<close> field
  through the nil pointer panics.
\<close>

datatype object = Unstructured vmap | NilUnstructured | Typed

datatype panic = NilDereference

datatype error = External string

text \<open>
  What the registry uses of the client package, of the runtime converter and of the
  standard library. \<open>NoGVR\<close> is \<open>client.NoGVR\<close>, \<open>G\<close> and \<open>V\<close> are the methods of an
  identifier, \<open>FromUnstructured\<close> is
  \<open>runtime.DefaultUnstructuredConverter.FromUnstructured\<close> into a custom-type
  definition, and \<open>ToLower\<close> is \<open>strings.ToLower\<close>.
\<close>

record 'gvr deps =
  NewGVR :: "string \<Rightarrow> 'gvr"
  FromGVAndR :: "string \<Rightarrow> string \<Rightarrow> 'gvr"
  NewGVRFromMeta :: "APIResource \<Rightarrow> 'gvr"
  NoGVR :: "'gvr"
  G :: "'gvr \<Rightarrow> string"
  V :: "'gvr \<Rightarrow> string"
  FromUnstructured :: "vmap \<Rightarrow> error + CustomResourceDefinition"
  ToLower :: "string \<Rightarrow> string"

type_synonym 'gvr ResourceMetas = "'gvr \<Rightarrow> APIResource option"

text \<open>
  The factory as one refresh observes it. \<open>Client\<close> is \<open>None\<close> for a \<open>nil\<close> client;
  \<open>CachedDiscovery\<close> gives an error or a discovery handle, and the handle's
  \<open>ServerPreferredResources\<close> gives the lists it could load together with the error it may
  report beside them. \<open>List_objs f gvr\<close> is \<open>f.List(gvr, client.ClusterScope, true,
  labels.Everything())\<close>. Every call of one refresh sees the same answers.
\<close>

record Discovery =
  ServerPreferredResources :: "APIResourceList list \<times> error option"

record Connection =
  ConnectionOK :: bool
  CachedDiscovery :: "error + Discovery"

record Factory =
  Client :: "Connection option"
  List_objs :: "string \<Rightarrow> error + object list"

subsection \<open>The catalog and its lookups\<close>

text \<open>\<open>clear\<close> deletes every key it ranges over.\<close>

definition clear :: "'gvr ResourceMetas \<Rightarrow> 'gvr ResourceMetas" where
  "clear m = (\<lambda>k. if k \<in> dom m then None else m k)"

definition RegisterMeta :: "'gvr deps \<Rightarrow> string \<Rightarrow> APIResource \<Rightarrow> 'gvr ResourceMetas \<Rightarrow> 'gvr ResourceMetas" where
  "RegisterMeta c gvr res m = m(NewGVR c gvr \<mapsto> res)"

datatype 'gvr lookup_error = NoResourceMeta 'gvr

definition MetaFor :: "'gvr ResourceMetas \<Rightarrow> 'gvr \<Rightarrow> 'gvr lookup_error + APIResource" where
  "MetaFor m gvr = (case m gvr of None \<Rightarrow> Inl (NoResourceMeta gvr) | Some meta \<Rightarrow> Inr meta)"

text \<open>
  \<open>AllGVRs\<close> collects the keys in the order the map happens to range over them and sorts
  them with the order of the client package (\<open>lt\<close>): the result is a duplicate-free
  enumeration of the keys in which no later element is less than an earlier one.
\<close>

definition AllGVRs :: "('gvr \<Rightarrow> 'gvr \<Rightarrow> bool) \<Rightarrow> 'gvr ResourceMetas \<Rightarrow> 'gvr list \<Rightarrow> bool" where
  "AllGVRs lt m kk = (distinct kk \<and> set kk = dom m \<and> sorted_wrt (\<lambda>a b. \<not> lt b a) kk)"

text \<open>
  \<open>GVK2GVR\<close> ranges over the map in an order Go does not fix and returns at the first
  entry that matches: any matching entry can be the answer, and the miss is the answer
  only when no entry matches.
\<close>

inductive GVK2GVR :: "'gvr deps \<Rightarrow> 'gvr ResourceMetas \<Rightarrow> string \<times> string \<Rightarrow> string \<Rightarrow> 'gvr \<times> bool \<times> bool \<Rightarrow> bool"
  for c m gv kind where
    hit: "m gvr = Some meta \<Longrightarrow> fst gv = Group meta \<Longrightarrow> snd gv = Version meta \<Longrightarrow> kind = Kind meta
      \<Longrightarrow> GVK2GVR c m gv kind (gvr, Namespaced meta, True)"
  | miss: "(\<And>gvr meta. m gvr = Some meta \<Longrightarrow>
        \<not> (fst gv = Group meta \<and> snd gv = Version meta \<and> kind = Kind meta))
      \<Longrightarrow> GVK2GVR c m gv kind (NoGVR c, False, False)"

definition IsCRD :: "APIResource \<Rightarrow> bool" where
  "IsCRD r = (crdCat \<in> set (Categories r))"

definition IsK8sMeta :: "APIResource \<Rightarrow> bool" where
  "IsK8sMeta m = (\<not> list_ex (\<lambda>category. category = k9sCat \<or> category = helmCat) (Categories m))"

definition IsK9sMeta :: "APIResource \<Rightarrow> bool" where
  "IsK9sMeta m = (k9sCat \<in> set (Categories m))"

definition IsScalable :: "APIResource \<Rightarrow> bool" where
  "IsScalable m = (scaleCat \<in> set (Categories m))"

subsection \<open>Synthetic registration\<close>

definition loadK9s :: "'gvr deps \<Rightarrow> 'gvr ResourceMetas \<Rightarrow> 'gvr ResourceMetas" where
  "loadK9s c m =
     (let
        m = m(NewGVR c ''workloads'' \<mapsto> APIResource0\<lparr>Name := ''workloads'', Kind := ''Workload'',
              SingularName := ''workload'', Namespaced := True, ShortNames := [''wk''],
              Categories := [k9sCat]\<rparr>);
        m = m(NewGVR c ''pulses'' \<mapsto> APIResource0\<lparr>Name := ''pulses'', Kind := ''Pulse'',
              SingularName := ''pulses'', ShortNames := [''hz'', ''pu''], Categories := [k9sCat]\<rparr>);
        m = m(NewGVR c ''dir'' \<mapsto> APIResource0\<lparr>Name := ''dir'', Kind := ''Dir'',
              SingularName := ''dir'', Categories := [k9sCat]\<rparr>);
        m = m(NewGVR c ''xrays'' \<mapsto> APIResource0\<lparr>Name := ''xray'', Kind := ''XRays'',
              SingularName := ''xray'', Categories := [k9sCat]\<rparr>);
        m = m(NewGVR c ''references'' \<mapsto> APIResource0\<lparr>Name := ''references'',
              Kind := ''References'', SingularName := ''reference'', Verbs := [],
              Categories := [k9sCat]\<rparr>);
        m = m(NewGVR c ''aliases'' \<mapsto> APIResource0\<lparr>Name := ''aliases'', Kind := ''Aliases'',
              SingularName := ''alias'', Verbs := [], Categories := [k9sCat]\<rparr>);
        m = m(NewGVR c ''contexts'' \<mapsto> APIResource0\<lparr>Name := ''contexts'', Kind := ''Contexts'',
              SingularName := ''context'', ShortNames := [''ctx''], Verbs := [],
              Categories := [k9sCat]\<rparr>);
        m = m(NewGVR c ''screendumps'' \<mapsto> APIResource0\<lparr>Name := ''screendumps'',
              Kind := ''ScreenDumps'', SingularName := ''screendump'', ShortNames := [''sd''],
              Verbs := [''delete''], Categories := [k9sCat]\<rparr>);
        m = m(NewGVR c ''benchmarks'' \<mapsto> APIResource0\<lparr>Name := ''benchmarks'',
              Kind := ''Benchmarks'', SingularName := ''benchmark'', ShortNames := [''be''],
              Verbs := [''delete''], Categories := [k9sCat]\<rparr>);
        m = m(NewGVR c ''portforwards'' \<mapsto> APIResource0\<lparr>Name := ''portforwards'',
              Namespaced := True, Kind := ''PortForwards'', SingularName := ''portforward'',
              ShortNames := [''pf''], Verbs := [''delete''], Categories := [k9sCat]\<rparr>);
        m = m(NewGVR c ''containers'' \<mapsto> APIResource0\<lparr>Name := ''containers'',
              Kind := ''Containers'', SingularName := ''container'', Verbs := [],
              Categories := [k9sCat]\<rparr>);
        m = m(NewGVR c ''scans'' \<mapsto> APIResource0\<lparr>Name := ''scans'', Kind := ''Scans'',
              SingularName := ''scan'', Verbs := [], Categories := [k9sCat]\<rparr>)
      in m)"

definition loadHelm :: "'gvr deps \<Rightarrow> 'gvr ResourceMetas \<Rightarrow> 'gvr ResourceMetas" where
  "loadHelm c m =
     (let
        m = m(NewGVR c ''helm'' \<mapsto> APIResource0\<lparr>Name := ''helm'', Kind := ''Helm'',
              Namespaced := True, Verbs := [''delete''], Categories := [helmCat]\<rparr>);
        m = m(NewGVR c ''helm-history'' \<mapsto> APIResource0\<lparr>Name := ''history'', Kind := ''History'',
              Namespaced := True, Verbs := [''delete''], Categories := [helmCat]\<rparr>)
      in m)"

definition loadRBAC :: "'gvr deps \<Rightarrow> 'gvr ResourceMetas \<Rightarrow> 'gvr ResourceMetas" where
  "loadRBAC c m =
     (let
        m = m(NewGVR c ''rbac'' \<mapsto> APIResource0\<lparr>Name := ''rbacs'', Kind := ''Rules'',
              Categories := [k9sCat]\<rparr>);
        m = m(NewGVR c ''policy'' \<mapsto> APIResource0\<lparr>Name := ''policies'', Kind := ''Rules'',
              Namespaced := True, Categories := [k9sCat]\<rparr>);
        m = m(NewGVR c ''users'' \<mapsto> APIResource0\<lparr>Name := ''users'', Kind := ''User'',
              Categories := [k9sCat]\<rparr>);
        m = m(NewGVR c ''groups'' \<mapsto> APIResource0\<lparr>Name := ''groups'', Kind := ''Group'',
              Categories := [k9sCat]\<rparr>)
      in m)"

definition loadNonResource :: "'gvr deps \<Rightarrow> 'gvr ResourceMetas \<Rightarrow> 'gvr ResourceMetas" where
  "loadNonResource c m = loadHelm c (loadRBAC c (loadK9s c m))"

subsection \<open>Live discovery\<close>

definition deprecatedGVRs :: "'gvr deps \<Rightarrow> 'gvr set" where
  "deprecatedGVRs c = {NewGVR c ''extensions/v1beta1/ingresses''}"

definition isDeprecated :: "'gvr deps \<Rightarrow> 'gvr \<Rightarrow> bool" where
  "isDeprecated c gvr = (gvr \<in> deprecatedGVRs c)"

text \<open>
  The body of the inner loop of \<open>loadPreferred\<close>, for the resource \<open>res\<close> of the list
  whose group-version is \<open>gv\<close>; \<open>continue\<close> leaves the catalog as it is.
\<close>

definition loadPreferred_res :: "'gvr deps \<Rightarrow> string \<Rightarrow> APIResource \<Rightarrow> 'gvr ResourceMetas \<Rightarrow> 'gvr ResourceMetas" where
  "loadPreferred_res c gv res m =
     (let gvr = FromGVAndR c gv (Name res) in
      if isDeprecated c gvr then m
      else
        let res = res\<lparr>Group := G c gvr, Version := V c gvr\<rparr>;
            res = (if SingularName res = [] then res\<lparr>SingularName := ToLower c (Kind res)\<rparr> else res);
            res = (if \<not> isStandardGroup gv then res\<lparr>Categories := Categories res @ [crdCat]\<rparr> else res)
        in m(gvr \<mapsto> res))"

fun loadPreferred_list :: "'gvr deps \<Rightarrow> string \<Rightarrow> APIResource list \<Rightarrow> 'gvr ResourceMetas \<Rightarrow> 'gvr ResourceMetas" where
  "loadPreferred_list c gv [] m = m"
| "loadPreferred_list c gv (res # rest) m = loadPreferred_list c gv rest (loadPreferred_res c gv res m)"

fun loadPreferred_lists :: "'gvr deps \<Rightarrow> APIResourceList list \<Rightarrow> 'gvr ResourceMetas \<Rightarrow> 'gvr ResourceMetas" where
  "loadPreferred_lists c [] m = m"
| "loadPreferred_lists c (r # rr) m =
     loadPreferred_lists c rr (loadPreferred_list c (GroupVersion r) (APIResources r) m)"

text \<open>
  \<open>loadPreferred\<close> returns its error beside the catalog it leaves. The error of
  \<open>ServerPreferredResources\<close> is only logged: the lists that came with it are loaded.
\<close>

definition loadPreferred :: "'gvr deps \<Rightarrow> Factory \<Rightarrow> 'gvr ResourceMetas \<Rightarrow> error option \<times> 'gvr ResourceMetas" where
  "loadPreferred c f m =
     (case Client f of
        None \<Rightarrow> (None, m)
      | Some conn \<Rightarrow>
          if \<not> ConnectionOK conn then (None, m)
          else
            (case CachedDiscovery conn of
               Inl err \<Rightarrow> (Some err, m)
             | Inr dial \<Rightarrow>
                 (case ServerPreferredResources dial of
                    (rr, err) \<Rightarrow> (None, loadPreferred_lists c rr m))))"

subsection \<open>Extension-type augmentation\<close>

fun newGVRFromCRD_versions ::
  "'gvr deps \<Rightarrow> CustomResourceDefinition \<Rightarrow> CustomResourceDefinitionVersion list
     \<Rightarrow> ('gvr \<times> CustomResourceDefinitionVersion) option" where
  "newGVRFromCRD_versions c crd [] = None"
| "newGVRFromCRD_versions c crd (v # vs) =
     (if Served v \<and> \<not> Deprecated v
      then Some (NewGVRFromMeta c (APIResource0\<lparr>Kind := names_Kind crd, Group := spec_Group crd,
                   Name := names_Plural crd, Version := version_Name v\<rparr>), v)
      else newGVRFromCRD_versions c crd vs)"

text \<open>
  \<open>newGVRFromCRD\<close> returns \<open>ok = false\<close> with zero values when no version qualifies; its
  only caller drops the zero values, so the miss is \<open>None\<close>.
\<close>

definition newGVRFromCRD ::
  "'gvr deps \<Rightarrow> CustomResourceDefinition \<Rightarrow> ('gvr \<times> CustomResourceDefinitionVersion) option" where
  "newGVRFromCRD c crd = newGVRFromCRD_versions c crd (spec_Versions crd)"

definition declares_scale :: "CustomResourceDefinitionVersion \<Rightarrow> bool" where
  "declares_scale version =
     (case Subresources version of None \<Rightarrow> False | Some sub \<Rightarrow> Scale sub \<noteq> None)"

text \<open>The last statement of the loop body of \<open>loadCRDs\<close>, once the identifier is known.\<close>

definition loadCRDs_scale ::
  "'gvr \<Rightarrow> CustomResourceDefinitionVersion \<Rightarrow> 'gvr ResourceMetas \<Rightarrow> 'gvr ResourceMetas" where
  "loadCRDs_scale gvr version m =
     (case m gvr of
        None \<Rightarrow> m
      | Some meta \<Rightarrow>
          if declares_scale version then
            (if scaleCat \<notin> set (Categories meta)
             then m(gvr \<mapsto> meta\<lparr>Categories := Categories meta @ [scaleCat]\<rparr>)
             else m)
          else m)"

text \<open>
  A call either returns or panics. The loop of \<open>loadCRDs\<close> asserts, without the
  two-value form, that every listed object is an \<open>*unstructured.Unstructured\<close>, and reads
  its \<open>Object\<close> field: an object of another type panics at the assertion, a nil pointer
  panics at the field, and the catalog stays as the loop left it.
\<close>

datatype completion = Normal | Panic

fun loadCRDs_objs :: "'gvr deps \<Rightarrow> object list \<Rightarrow> 'gvr ResourceMetas \<Rightarrow> completion \<times> 'gvr ResourceMetas" where
  "loadCRDs_objs c [] m = (Normal, m)"
| "loadCRDs_objs c (Typed # oo) m = (Panic, m)"
| "loadCRDs_objs c (NilUnstructured # oo) m = (Panic, m)"
| "loadCRDs_objs c (Unstructured obj # oo) m =
     (case FromUnstructured c obj of
        Inl err \<Rightarrow> loadCRDs_objs c oo m
      | Inr crd \<Rightarrow>
          (case newGVRFromCRD c crd of
             None \<Rightarrow> loadCRDs_objs c oo m
           | Some (gvr, version) \<Rightarrow> loadCRDs_objs c oo (loadCRDs_scale gvr version m)))"

definition loadCRDs :: "'gvr deps \<Rightarrow> Factory \<Rightarrow> 'gvr ResourceMetas \<Rightarrow> completion \<times> 'gvr ResourceMetas" where
  "loadCRDs c f m =
     (case Client f of
        None \<Rightarrow> (Normal, m)
      | Some conn \<Rightarrow>
          if \<not> ConnectionOK conn then (Normal, m)
          else
            (case List_objs f crdGVR of
               Inl err \<Rightarrow> (Normal, m)
             | Inr oo \<Rightarrow> loadCRDs_objs c oo m))"

subsection \<open>The refresh\<close>

datatype outcome = Returned "error option" | Panicked

definition LoadResources :: "'gvr deps \<Rightarrow> Factory \<Rightarrow> 'gvr ResourceMetas \<Rightarrow> outcome \<times> 'gvr ResourceMetas" where
  "LoadResources c f m =
     (let m = clear m in
      case loadPreferred c f m of
        (Some err, m) \<Rightarrow> (Returned (Some err), m)
      | (None, m) \<Rightarrow>
          (let m = loadNonResource c m in
           case loadCRDs c f m of
             (Panic, m) \<Rightarrow> (Panicked, m)
           | (Normal, m) \<Rightarrow> (Returned None, m)))"

subsection \<open>Accessor dispatch\<close>

text \<open>
  The prototypes of the dispatch table and the generic fallback \<open>Scaler\<close>. The \<open>Init\<close>
  methods of the accessors are defined outside the sources: \<open>AccessorFor\<close> takes \<open>Init\<close> as
  a parameter, from a prototype, a factory and an identifier to the initialized accessor.
\<close>

datatype dao =
    Workload | Context | Container | ImageScan | ScreenDump | Benchmark | PortForward | Dir
  | Service | Pod | Node | Namespace | ConfigMap | Secret | Deployment | DaemonSet
  | StatefulSet | ReplicaSet | CronJob | Job | HelmChart | HelmHistory
  | CustomResourceDefinition_dao | Scaler

text \<open>
  The map literal of \<open>AccessorFor\<close>; its keys are computed, so an entry overrides an
  earlier entry with an equal key.
\<close>

definition Accessors :: "'gvr deps \<Rightarrow> 'gvr \<Rightarrow> dao option" where
  "Accessors c =
     [NewGVR c ''workloads'' \<mapsto> Workload,
      NewGVR c ''contexts'' \<mapsto> Context,
      NewGVR c ''containers'' \<mapsto> Container,
      NewGVR c ''scans'' \<mapsto> ImageScan,
      NewGVR c ''screendumps'' \<mapsto> ScreenDump,
      NewGVR c ''benchmarks'' \<mapsto> Benchmark,
      NewGVR c ''portforwards'' \<mapsto> PortForward,
      NewGVR c ''dir'' \<mapsto> Dir,
      NewGVR c ''v1/services'' \<mapsto> Service,
      NewGVR c ''v1/pods'' \<mapsto> Pod,
      NewGVR c ''v1/nodes'' \<mapsto> Node,
      NewGVR c ''v1/namespaces'' \<mapsto> Namespace,
      NewGVR c ''v1/configmaps'' \<mapsto> ConfigMap,
      NewGVR c ''v1/secrets'' \<mapsto> Secret,
      NewGVR c ''apps/v1/deployments'' \<mapsto> Deployment,
      NewGVR c ''apps/v1/daemonsets'' \<mapsto> DaemonSet,
      NewGVR c ''apps/v1/statefulsets'' \<mapsto> StatefulSet,
      NewGVR c ''apps/v1/replicasets'' \<mapsto> ReplicaSet,
      NewGVR c ''batch/v1/cronjobs'' \<mapsto> CronJob,
      NewGVR c ''batch/v1beta1/cronjobs'' \<mapsto> CronJob,
      NewGVR c ''batch/v1/jobs'' \<mapsto> Job,
      NewGVR c ''helm'' \<mapsto> HelmChart,
      NewGVR c ''helm-history'' \<mapsto> HelmHistory,
      NewGVR c ''apiextensions.k8s.io/v1/customresourcedefinitions'' \<mapsto> CustomResourceDefinition_dao]"

definition AccessorFor ::
  "'gvr deps \<Rightarrow> (dao \<Rightarrow> 'f \<Rightarrow> 'gvr \<Rightarrow> 'acc) \<Rightarrow> 'f \<Rightarrow> 'gvr \<Rightarrow> 'acc \<times> error option" where
  "AccessorFor c Init f gvr =
     (let r = (case Accessors c gvr of None \<Rightarrow> Scaler | Some r \<Rightarrow> r)
      in (Init r f gvr, None))"

subsection \<open>The fallback field extractor\<close>

datatype extract_error =
    ExpectedUnstructured
  | FailedSlice string
  | KeyNotFound string
  | UnknownFieldType string
  | FailedString string
  | FailedField string

definition extractMap :: "vmap \<Rightarrow> string \<Rightarrow> extract_error list \<Rightarrow> vmap \<times> extract_error list" where
  "extractMap m n errs =
     (case m n of
        Some (VMap v) \<Rightarrow> (v, errs)
      | _ \<Rightarrow> (Map.empty, errs @ [FailedField n]))"

definition extractStr :: "vmap \<Rightarrow> string \<Rightarrow> extract_error list \<Rightarrow> string \<times> extract_error list" where
  "extractStr m n errs =
     (case m n of
        Some (VStr s) \<Rightarrow> (s, errs)
      | _ \<Rightarrow> ([], errs @ [FailedString n]))"

text \<open>The loop of \<open>extractSlice\<close> over the elements, with the strings collected so far.\<close>

fun extractSlice_elems ::
  "string \<Rightarrow> val list \<Rightarrow> string list \<Rightarrow> extract_error list \<Rightarrow> string list \<times> extract_error list" where
  "extractSlice_elems n [] ss errs = (ss, errs)"
| "extractSlice_elems n (name # ii) ss errs =
     (case name of
        VStr s \<Rightarrow> extractSlice_elems n ii (ss @ [s]) errs
      | VMap ob \<Rightarrow>
          (case ob ''name'' of
             Some (VStr s) \<Rightarrow> extractSlice_elems n ii (ss @ [s]) errs
           | _ \<Rightarrow> extractSlice_elems n ii ss (errs @ [KeyNotFound n]))
      | _ \<Rightarrow> extractSlice_elems n ii ss (errs @ [UnknownFieldType n]))"

definition extractSlice :: "vmap \<Rightarrow> string \<Rightarrow> extract_error list \<Rightarrow> string list \<times> extract_error list" where
  "extractSlice m n errs =
     (case m n of
        None \<Rightarrow> ([], errs)
      | Some VNil \<Rightarrow> ([], errs)
      | Some (VStrs s) \<Rightarrow> (s, errs)
      | Some (VSlice ii) \<Rightarrow> extractSlice_elems n ii [] errs
      | Some _ \<Rightarrow> ([], errs @ [FailedSlice n]))"

definition isNamespaced :: "string \<Rightarrow> bool" where
  "isNamespaced scope = (scope = ''Namespaced'')"

text \<open>
  \<open>extractMeta\<close> asserts the type of its object with the two-value form, so an object of
  another type is an error of the result. A nil \<open>*unstructured.Unstructured\<close> passes the
  assertion, and the first probe reads its \<open>Object\<close> field: the call panics.
\<close>

definition extractMeta :: "object \<Rightarrow> panic + APIResource \<times> extract_error list" where
  "extractMeta ob =
     (case ob of
        Typed \<Rightarrow> Inr (APIResource0, [ExpectedUnstructured])
      | NilUnstructured \<Rightarrow> Inl NilDereference
      | Unstructured crd \<Rightarrow>
          Inr (let m = APIResource0;
               (spec, errs) = extractMap crd ''spec'' [];
               (meta, errs) = extractMap crd ''metadata'' errs;
               (name, errs) = extractStr meta ''name'' errs;
               m = m\<lparr>Name := name\<rparr>;
               (grp, errs) = extractStr spec ''group'' errs;
               m = m\<lparr>Group := grp\<rparr>;
               (versions, errs) = extractSlice spec ''versions'' errs;
               m = (case versions of [] \<Rightarrow> m | v # _ \<Rightarrow> m\<lparr>Version := v\<rparr>);
               (scope, errs) = extractStr spec ''scope'' errs;
               m = m\<lparr>Namespaced := isNamespaced scope\<rparr>;
               (names, errs) = extractMap spec ''names'' errs;
               (kind, errs) = extractStr names ''kind'' errs;
               m = m\<lparr>Kind := kind\<rparr>;
               (singular, errs) = extractStr names ''singular'' errs;
               m = m\<lparr>SingularName := singular\<rparr>;
               (plural, errs) = extractStr names ''plural'' errs;
               m = m\<lparr>Name := plural\<rparr>;
               (shortNames, errs) = extractSlice names ''shortNames'' errs;
               m = m\<lparr>ShortNames := shortNames\<rparr>
           in (m, errs)))"

subsection \<open>The refresh with the phases in the order the specification lists them\<close>

text \<open>
  The specification lists the phases as clear, synthetic registration, live discovery,
  augmentation. \<open>LoadResources_spec_order\<close> runs the same phase functions in that order,
  to be compared with \<open>LoadResources\<close>.
\<close>

definition LoadResources_spec_order ::
  "'gvr deps \<Rightarrow> Factory \<Rightarrow> 'gvr ResourceMetas \<Rightarrow> outcome \<times> 'gvr ResourceMetas" where
  "LoadResources_spec_order c f m =
     (let m = clear m;
          m = loadNonResource c m in
      case loadPreferred c f m of
        (Some err, m) \<Rightarrow> (Returned (Some err), m)
      | (None, m) \<Rightarrow>
          (case loadCRDs c f m of
             (Panic, m) \<Rightarrow> (Panicked, m)
           | (Normal, m) \<Rightarrow> (Returned None, m)))"

subsection \<open>The fallback extractor, field by field\<close>

text \<open>
  What each probe of the extractor contributes, stated without the threaded error list:
  the errors of a map-valued field, of a string-valued field and of a list-valued field,
  the map a map-valued field yields, and the strings a list-valued field yields.
\<close>

definition sub_map :: "vmap \<Rightarrow> string \<Rightarrow> vmap" where
  "sub_map m n = (case m n of Some (VMap v) \<Rightarrow> v | _ \<Rightarrow> Map.empty)"

definition map_errors :: "vmap \<Rightarrow> string \<Rightarrow> extract_error list" where
  "map_errors m n = (case m n of Some (VMap v) \<Rightarrow> [] | _ \<Rightarrow> [FailedField n])"

definition str_value :: "vmap \<Rightarrow> string \<Rightarrow> string" where
  "str_value m n = (case m n of Some (VStr s) \<Rightarrow> s | _ \<Rightarrow> [])"

definition str_errors :: "vmap \<Rightarrow> string \<Rightarrow> extract_error list" where
  "str_errors m n = (case m n of Some (VStr s) \<Rightarrow> [] | _ \<Rightarrow> [FailedString n])"

fun elem_strings :: "val \<Rightarrow> string list" where
  "elem_strings (VStr s) = [s]"
| "elem_strings (VMap ob) = (case ob ''name'' of Some (VStr s) \<Rightarrow> [s] | _ \<Rightarrow> [])"
| "elem_strings _ = []"

fun elem_errors :: "string \<Rightarrow> val \<Rightarrow> extract_error list" where
  "elem_errors n (VStr s) = []"
| "elem_errors n (VMap ob) = (case ob ''name'' of Some (VStr s) \<Rightarrow> [] | _ \<Rightarrow> [KeyNotFound n])"
| "elem_errors n _ = [UnknownFieldType n]"

definition slice_strings :: "vmap \<Rightarrow> string \<Rightarrow> string list" where
  "slice_strings m n =
     (case m n of
        Some (VStrs s) \<Rightarrow> s
      | Some (VSlice ii) \<Rightarrow> concat (map elem_strings ii)
      | _ \<Rightarrow> [])"

definition slice_errors :: "vmap \<Rightarrow> string \<Rightarrow> extract_error list" where
  "slice_errors m n =
     (case m n of
        None \<Rightarrow> []
      | Some VNil \<Rightarrow> []
      | Some (VStrs s) \<Rightarrow> []
      | Some (VSlice ii) \<Rightarrow> concat (map (elem_errors n) ii)
      | Some _ \<Rightarrow> [FailedSlice n])"

subsection \<open>A reference instance of the parameters\<close>

text \<open>
  Modelled from the spec: the identifier type of the client package and its constructors
  are not among the sources. The specification describes an identifier as the composite
  key of group, version and resource name, compared as a triple; \<open>path_deps\<close> takes that
  triple as the identifier, reads a path of one, two or three segments as resource,
  version/resource or group/version/resource, and joins a group-version and a resource
  name with a slash, leaving out an empty part. Its converter reads the fields of a
  custom-type definition that the registry uses, and its lowering is the one of ASCII.
  The instance serves to evaluate the development on concrete inputs.
\<close>

text \<open>
  The lowering of \<open>path_deps\<close>: the bytes \<open>A\<close> to \<open>Z\<close> move to \<open>a\<close> to \<open>z\<close>, every
  other byte stays. It agrees with \<open>strings.ToLower\<close> on strings of ASCII bytes.
\<close>

definition lower_byte :: "char \<Rightarrow> char" where
  "lower_byte ch =
     (let n = (of_char ch :: nat) in if 65 \<le> n \<and> n \<le> 90 then char_of (n + 32) else ch)"

definition ascii_ToLower :: "string \<Rightarrow> string" where
  "ascii_ToLower s = map lower_byte s"

fun split_slash :: "string \<Rightarrow> string \<Rightarrow> string list" where
  "split_slash acc [] = [acc]"
| "split_slash acc (ch # s) =
     (if ch = CHR ''/'' then acc # split_slash [] s else split_slash (acc @ [ch]) s)"

definition path_NewGVR :: "string \<Rightarrow> string \<times> string \<times> string" where
  "path_NewGVR s =
     (case split_slash [] s of
        [r] \<Rightarrow> ([], [], r)
      | [v, r] \<Rightarrow> ([], v, r)
      | [g, v, r] \<Rightarrow> (g, v, r)
      | _ \<Rightarrow> ([], [], []))"

definition path_Join :: "string \<Rightarrow> string \<Rightarrow> string" where
  "path_Join a b = (if a = [] then b else if b = [] then a else a @ ''/'' @ b)"

definition bool_value :: "vmap \<Rightarrow> string \<Rightarrow> bool" where
  "bool_value m n = (case m n of Some (VBool b) \<Rightarrow> b | _ \<Rightarrow> False)"

definition decode_version :: "val \<Rightarrow> CustomResourceDefinitionVersion" where
  "decode_version v =
     (case v of
        VMap vm \<Rightarrow>
          \<lparr>version_Name = str_value vm ''name'',
           Served = bool_value vm ''served'',
           Deprecated = bool_value vm ''deprecated'',
           Subresources =
             (case vm ''subresources'' of
                Some (VMap sm) \<Rightarrow>
                  Some \<lparr>Scale =
                    (case sm ''scale'' of
                       Some (VMap sc) \<Rightarrow>
                         Some \<lparr>SpecReplicasPath = str_value sc ''specReplicasPath'',
                               StatusReplicasPath = str_value sc ''statusReplicasPath''\<rparr>
                     | _ \<Rightarrow> None)\<rparr>
              | _ \<Rightarrow> None)\<rparr>
      | _ \<Rightarrow> \<lparr>version_Name = [], Served = False, Deprecated = False, Subresources = None\<rparr>)"

definition decode_crd :: "vmap \<Rightarrow> error + CustomResourceDefinition" where
  "decode_crd ob =
     (case ob ''spec'' of
        Some (VMap spec) \<Rightarrow>
          (case spec ''versions'' of
             Some (VSlice vs) \<Rightarrow>
               Inr \<lparr>spec_Group = str_value spec ''group'',
                    names_Kind = str_value (sub_map spec ''names'') ''kind'',
                    names_Plural = str_value (sub_map spec ''names'') ''plural'',
                    spec_Versions = map decode_version vs\<rparr>
           | _ \<Rightarrow> Inl (External ''versions is not a list''))
      | _ \<Rightarrow> Inl (External ''spec is not an object''))"

definition path_deps :: "(string \<times> string \<times> string) deps" where
  "path_deps =
     \<lparr>NewGVR = path_NewGVR,
      FromGVAndR = (\<lambda>gv r. path_NewGVR (path_Join gv r)),
      NewGVRFromMeta = (\<lambda>a. (Group a, Version a, Name a)),
      NoGVR = ([], [], []),
      G = (\<lambda>(g, v, r). g),
      V = (\<lambda>(g, v, r). v),
      FromUnstructured = decode_crd,
      ToLower = ascii_ToLower\<rparr>"

subsection \<open>Example inputs\<close>

definition deployments :: APIResource where
  "deployments = APIResource0\<lparr>Name := ''deployments'', Kind := ''Deployment'', Namespaced := True\<rparr>"

definition widgets :: APIResource where
  "widgets = APIResource0\<lparr>Name := ''widgets'', Kind := ''Widget'', Namespaced := True\<rparr>"

definition ingresses :: APIResource where
  "ingresses = APIResource0\<lparr>Name := ''ingresses'', Kind := ''Ingress'', Namespaced := True\<rparr>"

definition example_discovery :: "APIResourceList list" where
  "example_discovery =
     [\<lparr>GroupVersion = ''apps/v1'', APIResources = [deployments]\<rparr>,
      \<lparr>GroupVersion = ''example.com/v1'', APIResources = [widgets]\<rparr>,
      \<lparr>GroupVersion = ''extensions/v1beta1'', APIResources = [ingresses]\<rparr>]"

text \<open>
  A custom-type definition for widgets: \<open>v1alpha1\<close> is not served, \<open>v1\<close> is served and
  declares a scale subresource.
\<close>

definition widget_names :: vmap where
  "widget_names =
     [''kind'' \<mapsto> VStr ''Widget'', ''singular'' \<mapsto> VStr ''widget'', ''plural'' \<mapsto> VStr ''widgets'']"

definition widget_spec :: vmap where
  "widget_spec =
     [''group'' \<mapsto> VStr ''example.com'',
      ''scope'' \<mapsto> VStr ''Namespaced'',
      ''names'' \<mapsto> VMap widget_names,
      ''versions'' \<mapsto> VSlice
         [VMap [''name'' \<mapsto> VStr ''v1alpha1'', ''served'' \<mapsto> VBool False],
          VMap [''name'' \<mapsto> VStr ''v1'', ''served'' \<mapsto> VBool True,
                ''subresources'' \<mapsto> VMap [''scale'' \<mapsto> VMap
                   [''specReplicasPath'' \<mapsto> VStr ''.spec.replicas'',
                    ''statusReplicasPath'' \<mapsto> VStr ''.status.replicas'']]]]]"

definition widget_crd :: vmap where
  "widget_crd =
     [''metadata'' \<mapsto> VMap [''name'' \<mapsto> VStr ''widgets.example.com''],
      ''spec'' \<mapsto> VMap widget_spec]"

text \<open>A custom-type definition none of whose versions is served.\<close>

definition retired_crd :: vmap where
  "retired_crd =
     [''metadata'' \<mapsto> VMap [''name'' \<mapsto> VStr ''gadgets.example.com''],
      ''spec'' \<mapsto> VMap
         [''group'' \<mapsto> VStr ''example.com'',
          ''names'' \<mapsto> VMap [''kind'' \<mapsto> VStr ''Gadget'', ''plural'' \<mapsto> VStr ''gadgets''],
          ''versions'' \<mapsto> VSlice [VMap [''name'' \<mapsto> VStr ''v1'', ''served'' \<mapsto> VBool False]]]]"

text \<open>
  A names map whose \<open>shortNames\<close> list holds a string, a boolean, a map with a name and a
  map without one.
\<close>

definition mixed_names :: vmap where
  "mixed_names =
     [''shortNames'' \<mapsto> VSlice
        [VStr ''wd'', VBool True, VMap [''name'' \<mapsto> VStr ''widget''], VMap Map.empty]]"

text \<open>The two definitions as the converter of \<open>path_deps\<close> reads them.\<close>

definition widget_definition :: CustomResourceDefinition where
  "widget_definition =
     \<lparr>spec_Group = ''example.com'', names_Kind = ''Widget'', names_Plural = ''widgets'',
      spec_Versions =
        [\<lparr>version_Name = ''v1alpha1'', Served = False, Deprecated = False, Subresources = None\<rparr>,
         \<lparr>version_Name = ''v1'', Served = True, Deprecated = False,
          Subresources = Some \<lparr>Scale = Some \<lparr>SpecReplicasPath = ''.spec.replicas'',
            StatusReplicasPath = ''.status.replicas''\<rparr>\<rparr>\<rparr>]\<rparr>"

definition retired_definition :: CustomResourceDefinition where
  "retired_definition =
     \<lparr>spec_Group = ''example.com'', names_Kind = ''Gadget'', names_Plural = ''gadgets'',
      spec_Versions =
        [\<lparr>version_Name = ''v1'', Served = False, Deprecated = False, Subresources = None\<rparr>]\<rparr>"

text \<open>
  Factories: a connected one that reports \<open>example_discovery\<close> and lists the two
  definitions, one with no connection, one whose discovery handle cannot be obtained, and
  one whose discovery reports a resource named \<open>helm\<close> under the empty group-version.
\<close>

definition connected_factory :: Factory where
  "connected_factory =
     \<lparr>Client = Some \<lparr>ConnectionOK = True,
        CachedDiscovery = Inr \<lparr>ServerPreferredResources = (example_discovery, None)\<rparr>\<rparr>,
      List_objs = (\<lambda>gvr. Inr [Unstructured retired_crd, Unstructured widget_crd])\<rparr>"

definition offline_factory :: Factory where
  "offline_factory =
     \<lparr>Client = Some \<lparr>ConnectionOK = False,
        CachedDiscovery = Inr \<lparr>ServerPreferredResources = (example_discovery, None)\<rparr>\<rparr>,
      List_objs = (\<lambda>gvr. Inr [Unstructured widget_crd])\<rparr>"

definition no_handle_factory :: Factory where
  "no_handle_factory =
     \<lparr>Client = Some \<lparr>ConnectionOK = True, CachedDiscovery = Inl (External ''no discovery'')\<rparr>,
      List_objs = (\<lambda>gvr. Inr [Unstructured widget_crd])\<rparr>"

definition colliding_factory :: Factory where
  "colliding_factory =
     \<lparr>Client = Some \<lparr>ConnectionOK = True,
        CachedDiscovery = Inr \<lparr>ServerPreferredResources =
          ([\<lparr>GroupVersion = [], APIResources = [APIResource0\<lparr>Name := ''helm'', Kind := ''Chart''\<rparr>]\<rparr>],
           None)\<rparr>\<rparr>,
      List_objs = (\<lambda>gvr. Inr [])\<rparr>"

subsection \<open>Facts about strings\<close>


subsection \<open>Facts about the catalog\<close>

lemma clear_empty: "clear m = Map.empty"
  by (rule ext) (simp add: clear_def dom_def)

lemma loadK9s_add: "loadK9s c m = m ++ loadK9s c Map.empty"
  by (rule ext) (simp add: loadK9s_def Let_def map_add_def)

lemma loadRBAC_add: "loadRBAC c m = m ++ loadRBAC c Map.empty"
  by (rule ext) (simp add: loadRBAC_def Let_def map_add_def)

lemma loadHelm_add: "loadHelm c m = m ++ loadHelm c Map.empty"
  by (rule ext) (simp add: loadHelm_def Let_def map_add_def)

text \<open>Synthetic registration overrides the catalog it is given with a fixed table.\<close>

lemma loadNonResource_add: "loadNonResource c m = m ++ loadNonResource c Map.empty"
proof -
  have "loadNonResource c m =
      ((m ++ loadK9s c Map.empty) ++ loadRBAC c Map.empty) ++ loadHelm c Map.empty"
    unfolding loadNonResource_def
    by (metis loadK9s_add loadRBAC_add loadHelm_add)
  moreover have "loadNonResource c Map.empty =
      (loadK9s c Map.empty ++ loadRBAC c Map.empty) ++ loadHelm c Map.empty"
    unfolding loadNonResource_def
    by (metis loadRBAC_add loadHelm_add)
  ultimately show ?thesis by simp
qed

lemma synthetic_categories:
  "loadNonResource c Map.empty k = Some meta \<Longrightarrow>
     Categories meta = [k9sCat] \<or> Categories meta = [helmCat]"
  by (simp add: loadNonResource_def loadK9s_def loadRBAC_def loadHelm_def Let_def APIResource0_def
      split: if_splits) auto


lemma newGVRFromCRD_versions_find:
  "newGVRFromCRD_versions c crd vs =
     (case find (\<lambda>v. Served v \<and> \<not> Deprecated v) vs of
        None \<Rightarrow> None
      | Some v \<Rightarrow>
          Some (NewGVRFromMeta c (APIResource0\<lparr>Kind := names_Kind crd, Group := spec_Group crd,
                  Name := names_Plural crd, Version := version_Name v\<rparr>), v))"
  by (induction vs) simp_all

lemma loadCRDs_scale_cases:
  "loadCRDs_scale g v m k = m k \<or>
   (k = g \<and> declares_scale v \<and>
    (\<exists>meta. m k = Some meta \<and> scaleCat \<notin> set (Categories meta) \<and>
       loadCRDs_scale g v m k = Some (meta\<lparr>Categories := Categories meta @ [scaleCat]\<rparr>)))"
  by (auto simp: loadCRDs_scale_def split: option.splits)

text \<open>
  The loop of \<open>loadCRDs\<close>, key by key: an entry stays as it was, or it had no \<open>scale\<close>
  category and got it appended because a listed definition names it and declares scale.
\<close>

lemma loadCRDs_objs_cases:
  "snd (loadCRDs_objs c oo m) k = m k \<or>
   (\<exists>meta. m k = Some meta \<and> scaleCat \<notin> set (Categories meta) \<and>
      snd (loadCRDs_objs c oo m) k = Some (meta\<lparr>Categories := Categories meta @ [scaleCat]\<rparr>) \<and>
      (\<exists>obj crd version. Unstructured obj \<in> set oo \<and> FromUnstructured c obj = Inr crd \<and>
         newGVRFromCRD c crd = Some (k, version) \<and> declares_scale version))"
proof (induction c oo m rule: loadCRDs_objs.induct)
  case (1 c m)
  show ?case by simp
next
  case (2 c oo m)
  show ?case by simp
next
  case (3 c oo m)
  show ?case by simp
next
  case (4 c obj oo m)
  show ?case
  proof (cases "FromUnstructured c obj")
    case (Inl err)
    with 4(1) show ?thesis by auto
  next
    case (Inr crd)
    show ?thesis
    proof (cases "newGVRFromCRD c crd")
      case None
      with Inr 4(2) show ?thesis by auto
    next
      case (Some p)
      obtain g v where p: "p = (g, v)" by (cases p)
      let ?m1 = "loadCRDs_scale g v m"
      have res: "snd (loadCRDs_objs c (Unstructured obj # oo) m) = snd (loadCRDs_objs c oo ?m1)"
        using Inr Some p by simp
      have ih: "snd (loadCRDs_objs c oo ?m1) k = ?m1 k \<or>
         (\<exists>meta. ?m1 k = Some meta \<and> scaleCat \<notin> set (Categories meta) \<and>
            snd (loadCRDs_objs c oo ?m1) k =
              Some (meta\<lparr>Categories := Categories meta @ [scaleCat]\<rparr>) \<and>
            (\<exists>obj crd version. Unstructured obj \<in> set oo \<and> FromUnstructured c obj = Inr crd \<and>
               newGVRFromCRD c crd = Some (k, version) \<and> declares_scale version))"
        using 4(3)[OF Inr Some p[symmetric]] .
      from loadCRDs_scale_cases[of g v m k] show ?thesis
      proof
        assume same: "?m1 k = m k"
        with ih res show ?thesis by auto
      next
        assume ch: "k = g \<and> declares_scale v \<and>
          (\<exists>meta. m k = Some meta \<and> scaleCat \<notin> set (Categories meta) \<and>
             ?m1 k = Some (meta\<lparr>Categories := Categories meta @ [scaleCat]\<rparr>))"
        then obtain meta where meta: "m k = Some meta" "scaleCat \<notin> set (Categories meta)"
          "?m1 k = Some (meta\<lparr>Categories := Categories meta @ [scaleCat]\<rparr>)" by blast
        from ih meta(3) have "snd (loadCRDs_objs c oo ?m1) k = ?m1 k" by auto
        moreover have "Unstructured obj \<in> set (Unstructured obj # oo)" by simp
        ultimately show ?thesis using res meta ch Inr Some p by metis
      qed
    qed
  qed
qed

lemma loadCRDs_cases:
  "snd (loadCRDs c f m) k = m k \<or>
   (\<exists>meta. m k = Some meta \<and> scaleCat \<notin> set (Categories meta) \<and>
      snd (loadCRDs c f m) k = Some (meta\<lparr>Categories := Categories meta @ [scaleCat]\<rparr>) \<and>
      (\<exists>oo obj crd version. List_objs f crdGVR = Inr oo \<and> Unstructured obj \<in> set oo \<and>
         FromUnstructured c obj = Inr crd \<and> newGVRFromCRD c crd = Some (k, version) \<and>
         declares_scale version))"
proof (cases "Client f")
  case None
  then show ?thesis by (simp add: loadCRDs_def)
next
  case (Some conn)
  show ?thesis
  proof (cases "ConnectionOK conn")
    case False
    with Some show ?thesis by (simp add: loadCRDs_def)
  next
    case True
    show ?thesis
    proof (cases "List_objs f crdGVR")
      case (Inl err)
      with Some True show ?thesis by (simp add: loadCRDs_def)
    next
      case (Inr oo)
      with Some True have eq: "loadCRDs c f m = loadCRDs_objs c oo m"
        by (simp add: loadCRDs_def)
      from loadCRDs_objs_cases[of c oo m k] Inr show ?thesis
        unfolding eq by blast
    qed
  qed
qed

lemma loadCRDs_None: "snd (loadCRDs c f m) k = None \<longleftrightarrow> m k = None"
  using loadCRDs_cases[of c f m k] by auto

lemma dom_loadCRDs: "dom (snd (loadCRDs c f m)) = dom m"
  by (auto simp: dom_def loadCRDs_None)

text \<open>Live discovery never writes under a deny-listed identifier.\<close>

lemma loadPreferred_res_keep:
  "isDeprecated c g \<Longrightarrow> loadPreferred_res c gv res m g = m g"
  by (auto simp: loadPreferred_res_def Let_def)

lemma loadPreferred_list_keep:
  "isDeprecated c g \<Longrightarrow> loadPreferred_list c gv rs m g = m g"
  by (induction rs arbitrary: m) (simp_all add: loadPreferred_res_keep)

lemma loadPreferred_lists_keep:
  "isDeprecated c g \<Longrightarrow> loadPreferred_lists c rr m g = m g"
  by (induction rr arbitrary: m) (simp_all add: loadPreferred_list_keep)

lemma loadPreferred_keep:
  "isDeprecated c g \<Longrightarrow> snd (loadPreferred c f m) g = m g"
  by (simp add: loadPreferred_def loadPreferred_lists_keep
      split: option.splits sum.splits prod.splits)

lemma loadPreferred_error:
  "fst (loadPreferred c f m) = Some err \<Longrightarrow> snd (loadPreferred c f m) = m"
  by (simp add: loadPreferred_def split: option.splits sum.splits prod.splits if_splits)

subsection \<open>Facts about the extractor\<close>

text \<open>Each probe appends its own errors to the list it is given and drops none.\<close>

lemma extractMap_eq: "extractMap m n errs = (sub_map m n, errs @ map_errors m n)"
  by (simp add: extractMap_def sub_map_def map_errors_def split: option.splits val.splits)

lemma extractStr_eq: "extractStr m n errs = (str_value m n, errs @ str_errors m n)"
  by (simp add: extractStr_def str_value_def str_errors_def split: option.splits val.splits)

lemma extractSlice_elems_eq:
  "extractSlice_elems n ii ss errs =
     (ss @ concat (map elem_strings ii), errs @ concat (map (elem_errors n) ii))"
proof (induction ii arbitrary: ss errs)
  case Nil
  show ?case by simp
next
  case (Cons e ii)
  show ?case
  proof (cases e)
    case (VMap ob)
    then show ?thesis
      by (cases "ob ''name''") (simp_all add: Cons.IH split: val.splits)
  qed (simp_all add: Cons.IH)
qed

lemma extractSlice_eq: "extractSlice m n errs = (slice_strings m n, errs @ slice_errors m n)"
  by (simp add: extractSlice_def slice_strings_def slice_errors_def extractSlice_elems_eq
      split: option.splits val.splits)

text \<open>An element of a list gives one string or one error.\<close>

lemma elem_one: "length (elem_strings e) + length (elem_errors n e) = 1"
  by (cases e) (simp_all split: option.splits val.splits)

lemma elems_total:
  "length (concat (map elem_strings ii)) + length (concat (map (elem_errors n) ii)) = length ii"
proof (induction ii)
  case Nil
  show ?case by simp
next
  case (Cons e ii)
  from elem_one[of e n] Cons show ?case by simp
qed

subsection \<open>Evaluating the reference instance\<close>

lemma path_NewGVR_simps:
  "path_NewGVR ''example.com/v1/widgets'' = (''example.com'', ''v1'', ''widgets'')"
  "path_NewGVR ''apps/v1/deployments'' = (''apps'', ''v1'', ''deployments'')"
  "path_NewGVR ''extensions/v1beta1/ingresses'' = (''extensions'', ''v1beta1'', ''ingresses'')"
  by (simp_all add: path_NewGVR_def)

lemma decode_examples:
  "decode_crd retired_crd = Inr retired_definition"
  "decode_crd widget_crd = Inr widget_definition"
  by (simp_all add: decode_crd_def retired_crd_def retired_definition_def decode_version_def
      str_value_def sub_map_def bool_value_def widget_crd_def widget_definition_def
      widget_spec_def widget_names_def)

lemma synthetic_at_examples:
  "loadNonResource path_deps Map.empty (''apps'', ''v1'', ''deployments'') = None"
  "loadNonResource path_deps Map.empty (''extensions'', ''v1beta1'', ''ingresses'') = None"
  "map_option Kind (loadNonResource path_deps m ([], [], ''helm'')) = Some ''Helm''"
  by (simp_all add: loadNonResource_def loadK9s_def loadRBAC_def loadHelm_def Let_def
      path_deps_def path_NewGVR_def)

section \<open>The claims\<close>

subsection \<open>Classification of group-versions\<close>




subsection \<open>The authoritative version of a custom-type definition\<close>

text \<open>
  C5. The identifier of a custom-type definition is derived from the first version of its
  declared list that is served and not deprecated, and that version is returned with it.
  When no version is both served and not deprecated, \<open>newGVRFromCRD\<close> reports a miss and
  the augmentation loop goes on to the next object with the catalog and the outcome
  untouched: no descriptor, no error.
\<close>

theorem newGVRFromCRD_first_served:
  "newGVRFromCRD c crd =
     (case find (\<lambda>v. Served v \<and> \<not> Deprecated v) (spec_Versions crd) of
        None \<Rightarrow> None
      | Some v \<Rightarrow>
          Some (NewGVRFromMeta c (APIResource0\<lparr>Kind := names_Kind crd, Group := spec_Group crd,
                  Name := names_Plural crd, Version := version_Name v\<rparr>), v)) \<and>
   (FromUnstructured c obj = Inr crd \<and>
    (\<forall>v \<in> set (spec_Versions crd). \<not> (Served v \<and> \<not> Deprecated v)) \<longrightarrow>
      newGVRFromCRD c crd = None \<and>
      loadCRDs_objs c (Unstructured obj # oo) m = loadCRDs_objs c oo m)"
proof -
  have first: "newGVRFromCRD c crd =
     (case find (\<lambda>v. Served v \<and> \<not> Deprecated v) (spec_Versions crd) of
        None \<Rightarrow> None
      | Some v \<Rightarrow>
          Some (NewGVRFromMeta c (APIResource0\<lparr>Kind := names_Kind crd, Group := spec_Group crd,
                  Name := names_Plural crd, Version := version_Name v\<rparr>), v))"
    by (simp add: newGVRFromCRD_def newGVRFromCRD_versions_find)
  have none: "newGVRFromCRD c crd = None"
    if "\<forall>v \<in> set (spec_Versions crd). \<not> (Served v \<and> \<not> Deprecated v)"
  proof -
    from that have "find (\<lambda>v. Served v \<and> \<not> Deprecated v) (spec_Versions crd) = None"
      by (simp add: find_None_iff)
    with first show ?thesis by simp
  qed
  from first none show ?thesis by auto
qed

text \<open>
  The widget definition yields its second version, \<open>v1\<close>; the retired definition yields
  nothing and leaves the empty catalog empty.
\<close>

theorem newGVRFromCRD_first_served_witness:
  "newGVRFromCRD path_deps widget_definition =
     Some ((''example.com'', ''v1'', ''widgets''), spec_Versions widget_definition ! 1) \<and>
   newGVRFromCRD path_deps retired_definition = None \<and>
   loadCRDs_objs path_deps [Unstructured retired_crd] Map.empty = (Normal, Map.empty)"
  using newGVRFromCRD_first_served [of path_deps widget_definition widget_crd "[]" Map.empty]
    newGVRFromCRD_first_served [of path_deps retired_definition retired_crd "[]" Map.empty]
  by (simp add: decode_examples path_deps_def widget_definition_def retired_definition_def
      APIResource0_def)

subsection \<open>Accessor dispatch\<close>

text \<open>
  C9. For every factory and every identifier, \<open>AccessorFor\<close> returns no error, and the
  accessor it returns is the result of \<open>Init\<close>, applied with the given factory and
  identifier to the table entry of the identifier, or to the generic fallback \<open>Scaler\<close>
  when the table has no entry for it.
\<close>

theorem AccessorFor_initialized:
  "snd (AccessorFor c Init f gvr) = None \<and>
   (Accessors c gvr = None \<longrightarrow> fst (AccessorFor c Init f gvr) = Init Scaler f gvr) \<and>
   (\<forall>r. Accessors c gvr = Some r \<longrightarrow> fst (AccessorFor c Init f gvr) = Init r f gvr)"
  by (simp add: AccessorFor_def)

text \<open>
  With an \<open>Init\<close> that records what it is given: deployments dispatch to their table
  entry, widgets to the fallback.
\<close>

theorem AccessorFor_initialized_witness:
  "AccessorFor path_deps (\<lambda>r f gvr. (r, f, gvr)) connected_factory
       (''apps'', ''v1'', ''deployments'') =
     ((Deployment, connected_factory, (''apps'', ''v1'', ''deployments'')), None) \<and>
   AccessorFor path_deps (\<lambda>r f gvr. (r, f, gvr)) connected_factory
       (''example.com'', ''v1'', ''widgets'') =
     ((Scaler, connected_factory, (''example.com'', ''v1'', ''widgets'')), None)"
proof -
  have a: "Accessors path_deps (''apps'', ''v1'', ''deployments'') = Some Deployment"
    by (simp add: Accessors_def path_deps_def path_NewGVR_def)
  have b: "Accessors path_deps (''example.com'', ''v1'', ''widgets'') = None"
    by (simp add: Accessors_def path_deps_def path_NewGVR_def)
  show ?thesis
    using a b
      AccessorFor_initialized [of path_deps "\<lambda>r f gvr. (r, f, gvr)" connected_factory
        "(''apps'', ''v1'', ''deployments'')"]
      AccessorFor_initialized [of path_deps "\<lambda>r f gvr. (r, f, gvr)" connected_factory
        "(''example.com'', ''v1'', ''widgets'')"]
    by (simp add: prod_eq_iff)
qed

subsection \<open>Idempotence of the refresh\<close>

text \<open>
  C10. A second refresh against the same factory answers, started from the catalog the
  first one left, ends with the same outcome and the same catalog as the first.
\<close>

theorem LoadResources_idempotent:
  "LoadResources c f (snd (LoadResources c f m)) = LoadResources c f m"
  by (simp add: LoadResources_def clear_empty)

subsection \<open>The order of the phases\<close>

text \<open>
  C1, as amended. \<open>LoadResources\<close> runs its phases in the order clear, live discovery,
  synthetic registration, augmentation. When the discovery handle cannot be obtained the
  refresh stops after the clear and returns the error with the empty catalog. Otherwise
  the catalog is what augmentation makes of the discovered entries overridden by the
  synthetic table: where a discovered identifier equals a synthetic one, the synthetic
  descriptor wins. The catalog the refresh started from has no influence.
\<close>

theorem LoadResources_phase_order:
  "LoadResources c f m =
     (case loadPreferred c f Map.empty of
        (Some err, live) \<Rightarrow> (Returned (Some err), Map.empty)
      | (None, live) \<Rightarrow>
          (case loadCRDs c f (live ++ loadNonResource c Map.empty) of
             (Panic, m') \<Rightarrow> (Panicked, m')
           | (Normal, m') \<Rightarrow> (Returned None, m')))"
proof -
  obtain e live where lp: "loadPreferred c f Map.empty = (e, live)"
    by (cases "loadPreferred c f Map.empty")
  show ?thesis
  proof (cases e)
    case (Some err)
    with lp loadPreferred_error[of c f Map.empty err] show ?thesis
      by (simp add: LoadResources_def clear_empty)
  next
    case None
    with lp show ?thesis
      by (simp add: LoadResources_def clear_empty loadNonResource_add[of c live])
  qed
qed


text \<open>
  C1 as stated fails. When the discovery handle cannot be obtained, the refresh leaves the
  empty catalog, while the phases in the stated order leave the synthetic table; and where
  discovery reports an identifier that is also synthetic (a resource \<open>helm\<close> under the
  empty group-version), the refresh keeps the synthetic descriptor, while the stated order
  keeps the discovered one.
\<close>

theorem LoadResources_not_spec_order:
  "snd (LoadResources path_deps no_handle_factory Map.empty) \<noteq>
     snd (LoadResources_spec_order path_deps no_handle_factory Map.empty) \<and>
   snd (LoadResources path_deps colliding_factory Map.empty) \<noteq>
     snd (LoadResources_spec_order path_deps colliding_factory Map.empty)"
proof -
  have a: "snd (LoadResources path_deps no_handle_factory Map.empty) ([], [], ''helm'') = None"
    by (simp add: LoadResources_def clear_empty loadPreferred_def no_handle_factory_def)
  have b: "map_option Kind
      (snd (LoadResources_spec_order path_deps no_handle_factory Map.empty) ([], [], ''helm'')) =
      Some ''Helm''"
    using synthetic_at_examples(3)[of Map.empty]
    by (simp add: LoadResources_spec_order_def clear_empty loadPreferred_def no_handle_factory_def)
  have h: "path_NewGVR ''helm'' = ([], [], ''helm'')" by (simp add: path_NewGVR_def)
  have nd: "\<not> isDeprecated path_deps ([], [], ''helm'')"
    by (simp add: isDeprecated_def deprecatedGVRs_def path_deps_def path_NewGVR_simps)
  have lp: "\<And>m. loadPreferred path_deps colliding_factory m =
      (None, loadPreferred_res path_deps [] (APIResource0\<lparr>Name := ''helm'', Kind := ''Chart''\<rparr>) m)"
    by (simp add: loadPreferred_def colliding_factory_def)
  have lc: "\<And>m. loadCRDs path_deps colliding_factory m = (Normal, m)"
    by (simp add: loadCRDs_def colliding_factory_def)
  have fr: "FromGVAndR path_deps [] ''helm'' = ([], [], ''helm'')"
    by (simp add: path_deps_def path_Join_def h)
  have pr: "\<And>m. map_option Kind
      (loadPreferred_res path_deps [] (APIResource0\<lparr>Name := ''helm'', Kind := ''Chart''\<rparr>) m
         ([], [], ''helm'')) = Some ''Chart''"
    using nd by (simp add: loadPreferred_res_def Let_def fr APIResource0_def)
  have c: "map_option Kind
      (snd (LoadResources path_deps colliding_factory Map.empty) ([], [], ''helm'')) = Some ''Helm''"
    using synthetic_at_examples(3) by (simp add: LoadResources_def clear_empty lp lc)
  have d: "map_option Kind
      (snd (LoadResources_spec_order path_deps colliding_factory Map.empty) ([], [], ''helm'')) =
      Some ''Chart''"
    using pr by (simp add: LoadResources_spec_order_def clear_empty lp lc)
  from a b have "snd (LoadResources path_deps no_handle_factory Map.empty) \<noteq>
     snd (LoadResources_spec_order path_deps no_handle_factory Map.empty)" by auto
  moreover from c d have "snd (LoadResources path_deps colliding_factory Map.empty) \<noteq>
     snd (LoadResources_spec_order path_deps colliding_factory Map.empty)" by auto
  ultimately show ?thesis by simp
qed

subsection \<open>Refresh without a connection\<close>

text \<open>
  C3. When the factory has no client, or its client reports no connection, the refresh
  returns without an error, and the catalog it leaves is what the synthetic registration
  (k9s, RBAC, helm) installs into an empty catalog, whatever the catalog held before;
  none of its entries is a cluster resource or carries the \<open>crd\<close> category.
\<close>

theorem LoadResources_disconnected:
  assumes "case Client f of None \<Rightarrow> True | Some conn \<Rightarrow> \<not> ConnectionOK conn"
  shows "LoadResources c f m = (Returned None, loadHelm c (loadRBAC c (loadK9s c Map.empty))) \<and>
    (\<forall>k meta. snd (LoadResources c f m) k = Some meta \<longrightarrow> \<not> IsK8sMeta meta \<and> \<not> IsCRD meta)"
proof -
  have eq: "LoadResources c f m = (Returned None, loadNonResource c Map.empty)"
    using assms
    by (auto simp: LoadResources_def clear_empty loadPreferred_def loadCRDs_def
        split: option.splits)
  have "\<not> IsK8sMeta meta \<and> \<not> IsCRD meta"
    if "loadNonResource c Map.empty k = Some meta" for k meta
    using synthetic_categories[OF that]
    by (auto simp: IsK8sMeta_def IsCRD_def crdCat_def k9sCat_def helmCat_def)
  with eq show ?thesis by (simp add: loadNonResource_def)
qed


text \<open>
  A refresh with a client that reports no connection, started from a catalog that knows
  the deployments: the synthetic table is all that is left.
\<close>

theorem LoadResources_disconnected_witness:
  "LoadResources path_deps offline_factory [(''apps'', ''v1'', ''deployments'') \<mapsto> deployments] =
     (Returned None, loadHelm path_deps (loadRBAC path_deps (loadK9s path_deps Map.empty))) \<and>
   snd (LoadResources path_deps offline_factory [(''apps'', ''v1'', ''deployments'') \<mapsto> deployments])
     (''apps'', ''v1'', ''deployments'') = None"
proof -
  have off: "case Client offline_factory of None \<Rightarrow> True | Some conn \<Rightarrow> \<not> ConnectionOK conn"
    by (simp add: offline_factory_def)
  from LoadResources_disconnected [OF off, of path_deps
      "[(''apps'', ''v1'', ''deployments'') \<mapsto> deployments]"]
  show ?thesis
    using synthetic_at_examples(1) by (simp add: loadNonResource_def)
qed

subsection \<open>Refresh without a discovery handle\<close>

text \<open>
  C4. When the client is connected and obtaining the cached discovery handle fails, the
  refresh returns that error and leaves the catalog empty, the synthetic descriptors
  included: \<open>MetaFor\<close> fails for every identifier, \<open>AllGVRs\<close> is the empty list, and
  \<open>GVK2GVR\<close> reports a miss.
\<close>

theorem LoadResources_handle_error:
  assumes "Client f = Some conn" and "ConnectionOK conn" and "CachedDiscovery conn = Inl err"
  shows "LoadResources c f m = (Returned (Some err), Map.empty) \<and>
    (\<forall>gvr. MetaFor (snd (LoadResources c f m)) gvr = Inl (NoResourceMeta gvr)) \<and>
    (\<forall>kk. AllGVRs lt (snd (LoadResources c f m)) kk \<longleftrightarrow> kk = []) \<and>
    (\<forall>res. GVK2GVR c (snd (LoadResources c f m)) gv kind res \<longleftrightarrow>
       res = (NoGVR c, False, False))"
proof -
  have eq: "LoadResources c f m = (Returned (Some err), Map.empty)"
    using assms by (simp add: LoadResources_def clear_empty loadPreferred_def)
  have a: "AllGVRs lt Map.empty kk \<longleftrightarrow> kk = []" for kk
    by (auto simp: AllGVRs_def)
  have g: "GVK2GVR c Map.empty gv kind res \<longleftrightarrow> res = (NoGVR c, False, False)" for res
    by (auto elim: GVK2GVR.cases intro: GVK2GVR.miss)
  show ?thesis unfolding eq using a g by (simp add: MetaFor_def)
qed


text \<open>The same start with a factory whose discovery handle cannot be obtained.\<close>

theorem LoadResources_handle_error_witness:
  "LoadResources path_deps no_handle_factory [(''apps'', ''v1'', ''deployments'') \<mapsto> deployments] =
     (Returned (Some (External ''no discovery'')), Map.empty) \<and>
   MetaFor
     (snd (LoadResources path_deps no_handle_factory
        [(''apps'', ''v1'', ''deployments'') \<mapsto> deployments]))
     ([], [], ''helm'') = Inl (NoResourceMeta ([], [], ''helm'')) \<and>
   AllGVRs (\<lambda>a b. False)
     (snd (LoadResources path_deps no_handle_factory
        [(''apps'', ''v1'', ''deployments'') \<mapsto> deployments])) [] \<and>
   GVK2GVR path_deps
     (snd (LoadResources path_deps no_handle_factory
        [(''apps'', ''v1'', ''deployments'') \<mapsto> deployments]))
     (''apps'', ''v1'') ''Deployment'' (NoGVR path_deps, False, False)"
proof -
  have a: "Client no_handle_factory =
      Some \<lparr>ConnectionOK = True, CachedDiscovery = Inl (External ''no discovery'')\<rparr>"
    by (simp add: no_handle_factory_def)
  have b: "ConnectionOK \<lparr>ConnectionOK = True, CachedDiscovery = Inl (External ''no discovery'')\<rparr>"
    by simp
  have e: "CachedDiscovery
      \<lparr>ConnectionOK = True, CachedDiscovery = Inl (External ''no discovery'')\<rparr> =
      Inl (External ''no discovery'')"
    by simp
  from LoadResources_handle_error [OF a b e, of path_deps
      "[(''apps'', ''v1'', ''deployments'') \<mapsto> deployments]" "\<lambda>a b. False"
      "(''apps'', ''v1'')" "''Deployment''"]
  show ?thesis by blast
qed

subsection \<open>Augmentation only\<close>

text \<open>
  C6. The augmentation phase leaves the set of identifiers of the catalog as it was, and
  every entry either stays as it was or, having had no \<open>scale\<close> category, gets \<open>scale\<close>
  appended to its categories; the latter only when a listed definition whose
  authoritative version declares a scale subresource derives that identifier.
\<close>

theorem loadCRDs_augmentation_only:
  "dom (snd (loadCRDs c f m)) = dom m \<and>
   (\<forall>k. snd (loadCRDs c f m) k = m k \<or>
     (\<exists>meta. m k = Some meta \<and> scaleCat \<notin> set (Categories meta) \<and>
        snd (loadCRDs c f m) k = Some (meta\<lparr>Categories := Categories meta @ [scaleCat]\<rparr>) \<and>
        (\<exists>oo obj crd version. List_objs f crdGVR = Inr oo \<and> Unstructured obj \<in> set oo \<and>
           FromUnstructured c obj = Inr crd \<and> newGVRFromCRD c crd = Some (k, version) \<and>
           declares_scale version)))"
  using dom_loadCRDs[of c f m] loadCRDs_cases[of c f m] by blast


text \<open>
  Augmentation of a catalog that knows the widgets: the key set stays, the widgets get
  \<open>scale\<close>.
\<close>

theorem loadCRDs_augmentation_only_witness:
  "dom (snd (loadCRDs path_deps connected_factory
          [(''example.com'', ''v1'', ''widgets'') \<mapsto> widgets])) =
     {(''example.com'', ''v1'', ''widgets'')} \<and>
   snd (loadCRDs path_deps connected_factory [(''example.com'', ''v1'', ''widgets'') \<mapsto> widgets])
     (''example.com'', ''v1'', ''widgets'') = Some (widgets\<lparr>Categories := [scaleCat]\<rparr>)"
proof -
  have e: "snd (loadCRDs path_deps connected_factory
          [(''example.com'', ''v1'', ''widgets'') \<mapsto> widgets])
     (''example.com'', ''v1'', ''widgets'') = Some (widgets\<lparr>Categories := [scaleCat]\<rparr>)"
    by (simp add: loadCRDs_def connected_factory_def decode_examples path_deps_def
        newGVRFromCRD_def widget_definition_def retired_definition_def loadCRDs_scale_def
        declares_scale_def widgets_def APIResource0_def scaleCat_def)
  from loadCRDs_augmentation_only [of path_deps connected_factory
      "[(''example.com'', ''v1'', ''widgets'') \<mapsto> widgets]"]
  have "dom (snd (loadCRDs path_deps connected_factory
          [(''example.com'', ''v1'', ''widgets'') \<mapsto> widgets])) =
     dom [(''example.com'', ''v1'', ''widgets'') \<mapsto> widgets]" by blast
  with e show ?thesis by simp
qed

subsection \<open>Deprecation exclusion\<close>

text \<open>
  C7. An identifier on the deny-list is absent from the catalog after a refresh, whatever
  discovery reports and whatever the catalog held before. The identifiers come from the
  client package: the deny-listed identifier is taken not to be one of the synthetic
  identifiers.
\<close>

theorem deprecated_never_cataloged:
  assumes "g \<in> deprecatedGVRs c" and "g \<notin> dom (loadNonResource c Map.empty)"
  shows "snd (LoadResources c f m) g = None"
proof -
  have dep: "isDeprecated c g" using assms(1) by (simp add: isDeprecated_def)
  obtain e live where lp: "loadPreferred c f Map.empty = (e, live)"
    by (cases "loadPreferred c f Map.empty")
  have live: "live g = None" using loadPreferred_keep[OF dep, of f Map.empty] lp by simp
  show ?thesis
  proof (cases e)
    case (Some err)
    with lp live show ?thesis by (simp add: LoadResources_def clear_empty)
  next
    case None
    have "loadNonResource c live g = None"
      using live assms(2)
      by (subst loadNonResource_add) (auto simp: map_add_def split: option.splits)
    then have "snd (loadCRDs c f (loadNonResource c live)) g = None"
      by (simp add: loadCRDs_None)
    with None lp show ?thesis
      by (auto simp: LoadResources_def clear_empty split: prod.splits completion.splits)
  qed
qed


text \<open>
  Discovery reports the ingresses of \<open>extensions/v1beta1\<close>, and the catalog knew them
  before: the refresh leaves no entry for them.
\<close>

theorem deprecated_never_cataloged_witness:
  "(''extensions'', ''v1beta1'', ''ingresses'') \<in> deprecatedGVRs path_deps \<and>
   snd (LoadResources path_deps connected_factory
          [(''extensions'', ''v1beta1'', ''ingresses'') \<mapsto> ingresses])
     (''extensions'', ''v1beta1'', ''ingresses'') = None"
proof -
  have d: "(''extensions'', ''v1beta1'', ''ingresses'') \<in> deprecatedGVRs path_deps"
    by (simp add: deprecatedGVRs_def path_deps_def path_NewGVR_simps)
  have s: "(''extensions'', ''v1beta1'', ''ingresses'') \<notin> dom (loadNonResource path_deps Map.empty)"
    using synthetic_at_examples(2) by (simp add: dom_def)
  from deprecated_never_cataloged [OF d s] d show ?thesis by simp
qed

subsection \<open>The fallback extractor\<close>

text \<open>
  C8, as amended. For a non-nil unstructured object the extractor never stops early: it
  returns the descriptor built from whatever fields it could read together with the errors
  of all eleven probes, in the order of the probes. A map-valued or string-valued field
  contributes exactly one error when it is missing or of another type, and none
  otherwise. A list-valued field contributes no error when it is missing or \<open>nil\<close> or a
  list of strings, one error when it is of a type that is no list, and, when it is a
  list of arbitrary values, one error for each element that is neither a string nor a
  map with a string under \<open>name\<close>, every other element giving its string. An object of
  another dynamic type gives the empty descriptor and one error. The amended claim is
  about these inputs; the one input left, a nil pointer to an unstructured object, makes
  the extractor panic at its first probe, which the last conjunct records.
\<close>

theorem extractMeta_collects_errors:
  "extractMeta Typed = Inr (APIResource0, [ExpectedUnstructured]) \<and>
   extractMeta (Unstructured crd) = Inr
     (let spec = sub_map crd ''spec''; meta = sub_map crd ''metadata'';
          names = sub_map spec ''names''
      in (APIResource0\<lparr>Name := str_value names ''plural'',
            SingularName := str_value names ''singular'',
            Namespaced := isNamespaced (str_value spec ''scope''),
            Group := str_value spec ''group'',
            Version := (case slice_strings spec ''versions'' of [] \<Rightarrow> [] | v # _ \<Rightarrow> v),
            Kind := str_value names ''kind'',
            ShortNames := slice_strings names ''shortNames''\<rparr>,
          map_errors crd ''spec'' @ map_errors crd ''metadata'' @ str_errors meta ''name'' @
          str_errors spec ''group'' @ slice_errors spec ''versions'' @ str_errors spec ''scope'' @
          map_errors spec ''names'' @ str_errors names ''kind'' @ str_errors names ''singular'' @
          str_errors names ''plural'' @ slice_errors names ''shortNames'')) \<and>
   length (map_errors m n) = (if \<exists>v. m n = Some (VMap v) then 0 else 1) \<and>
   length (str_errors m n) = (if \<exists>s. m n = Some (VStr s) then 0 else 1) \<and>
   (m n = None \<or> m n = Some VNil \<longrightarrow> slice_strings m n = [] \<and> slice_errors m n = []) \<and>
   (\<forall>ss. m n = Some (VStrs ss) \<longrightarrow> slice_strings m n = ss \<and> slice_errors m n = []) \<and>
   (\<forall>ii. m n = Some (VSlice ii) \<longrightarrow>
      slice_strings m n = concat (map elem_strings ii) \<and>
      length (slice_strings m n) + length (slice_errors m n) = length ii) \<and>
   (\<forall>v. m n = Some v \<and> v \<noteq> VNil \<and> (\<forall>ss. v \<noteq> VStrs ss) \<and> (\<forall>ii. v \<noteq> VSlice ii) \<longrightarrow>
      slice_strings m n = [] \<and> slice_errors m n = [FailedSlice n]) \<and>
   extractMeta NilUnstructured = Inl NilDereference"
proof -
  have typed: "extractMeta Typed = Inr (APIResource0, [ExpectedUnstructured])"
    by (simp add: extractMeta_def)
  have nilp: "extractMeta NilUnstructured = Inl NilDereference"
    by (simp add: extractMeta_def)
  have un: "extractMeta (Unstructured crd) = Inr
     (let spec = sub_map crd ''spec''; meta = sub_map crd ''metadata'';
          names = sub_map spec ''names''
      in (APIResource0\<lparr>Name := str_value names ''plural'',
            SingularName := str_value names ''singular'',
            Namespaced := isNamespaced (str_value spec ''scope''),
            Group := str_value spec ''group'',
            Version := (case slice_strings spec ''versions'' of [] \<Rightarrow> [] | v # _ \<Rightarrow> v),
            Kind := str_value names ''kind'',
            ShortNames := slice_strings names ''shortNames''\<rparr>,
          map_errors crd ''spec'' @ map_errors crd ''metadata'' @ str_errors meta ''name'' @
          str_errors spec ''group'' @ slice_errors spec ''versions'' @ str_errors spec ''scope'' @
          map_errors spec ''names'' @ str_errors names ''kind'' @ str_errors names ''singular'' @
          str_errors names ''plural'' @ slice_errors names ''shortNames''))"
    by (simp add: extractMeta_def extractMap_eq extractStr_eq extractSlice_eq Let_def
        APIResource0_def split: list.splits)
  have m1: "length (map_errors m n) = (if \<exists>v. m n = Some (VMap v) then 0 else 1)"
    by (simp add: map_errors_def split: option.splits val.splits)
  have s1: "length (str_errors m n) = (if \<exists>s. m n = Some (VStr s) then 0 else 1)"
    by (simp add: str_errors_def split: option.splits val.splits)
  have nil: "m n = None \<or> m n = Some VNil \<longrightarrow> slice_strings m n = [] \<and> slice_errors m n = []"
    by (auto simp: slice_strings_def slice_errors_def)
  have strs: "\<forall>ss. m n = Some (VStrs ss) \<longrightarrow> slice_strings m n = ss \<and> slice_errors m n = []"
    by (simp add: slice_strings_def slice_errors_def)
  have sl: "\<forall>ii. m n = Some (VSlice ii) \<longrightarrow>
      slice_strings m n = concat (map elem_strings ii) \<and>
      length (slice_strings m n) + length (slice_errors m n) = length ii"
    using elems_total by (simp add: slice_strings_def slice_errors_def)
  have other: "\<forall>v. m n = Some v \<and> v \<noteq> VNil \<and> (\<forall>ss. v \<noteq> VStrs ss) \<and> (\<forall>ii. v \<noteq> VSlice ii) \<longrightarrow>
      slice_strings m n = [] \<and> slice_errors m n = [FailedSlice n]"
    by (auto simp: slice_strings_def slice_errors_def split: val.splits)
  from typed un m1 s1 nil strs sl other nilp show ?thesis by blast
qed

text \<open>
  The retired definition lacks a scope and a singular name, and no short names: two
  errors, one for each string. The mixed list gives two strings and two errors.
\<close>

theorem extractMeta_collects_errors_witness:
  "map_sum id snd (extractMeta (Unstructured retired_crd)) =
     Inr [FailedString ''scope'', FailedString ''singular''] \<and>
   slice_strings mixed_names ''shortNames'' = [''wd'', ''widget''] \<and>
   length (slice_errors mixed_names ''shortNames'') = 2 \<and>
   extractSlice mixed_names ''shortNames'' [] =
     ([''wd'', ''widget''], [UnknownFieldType ''shortNames'', KeyNotFound ''shortNames''])"
proof -
  have sn: "mixed_names ''shortNames'' =
      Some (VSlice [VStr ''wd'', VBool True, VMap [''name'' \<mapsto> VStr ''widget''], VMap Map.empty])"
    by (simp add: mixed_names_def)
  have ex: "extractSlice mixed_names ''shortNames'' [] =
     ([''wd'', ''widget''], [UnknownFieldType ''shortNames'', KeyNotFound ''shortNames''])"
    by (simp add: extractSlice_def sn)
  have r: "map_sum id snd (extractMeta (Unstructured retired_crd)) =
      Inr [FailedString ''scope'', FailedString ''singular'']"
    using extractMeta_collects_errors [of retired_crd mixed_names "''shortNames''"]
    by (simp add: retired_crd_def sub_map_def map_errors_def str_errors_def slice_errors_def Let_def)
  from extractMeta_collects_errors [of retired_crd mixed_names "''shortNames''"] sn
  have st: "slice_strings mixed_names ''shortNames'' =
      concat (map elem_strings
        [VStr ''wd'', VBool True, VMap [''name'' \<mapsto> VStr ''widget''], VMap Map.empty])"
    and ln: "length (slice_strings mixed_names ''shortNames'') +
      length (slice_errors mixed_names ''shortNames'') =
      length [VStr ''wd'', VBool True, VMap [''name'' \<mapsto> VStr ''widget''], VMap Map.empty]"
    by blast+
  from st have st': "slice_strings mixed_names ''shortNames'' = [''wd'', ''widget'']"
    by simp
  from ln have "length (slice_errors mixed_names ''shortNames'') = 2"
    unfolding st' by simp
  with st' have "slice_strings mixed_names ''shortNames'' = [''wd'', ''widget''] \<and>
    length (slice_errors mixed_names ''shortNames'') = 2"
    by simp
  with r ex show ?thesis by simp
qed

text \<open>
  C8 as stated fails: the widget definition has no \<open>shortNames\<close> field, and its
  extraction collects no error.
\<close>

theorem extractMeta_missing_list_no_error:
  "sub_map (sub_map widget_crd ''spec'') ''names'' ''shortNames'' = None \<and>
   map_sum id snd (extractMeta (Unstructured widget_crd)) = Inr []"
  by (simp add: extractMeta_def extractMap_def extractStr_def extractSlice_def Let_def
      widget_crd_def widget_spec_def widget_names_def sub_map_def)

end
